theory Spec2Isabelle
  imports Main "HOL-Library.AList"
begin

section \<open>Data model of server.js\<close>

text \<open>
  The server keeps three module-level objects, \<^verbatim>\<open>matchTransports\<close>, \<^verbatim>\<open>matchProducers\<close> and
  \<^verbatim>\<open>matchConsumers\<close>. Each maps a match identifier to an object that maps a resource
  identifier to the mediasoup object created for it.

  A JavaScript object with string keys is an association list with distinct keys, in
  insertion order: assigning to a new key appends it, assigning to an existing key keeps its
  place, \<^verbatim>\<open>delete\<close> removes the entry and is a no-op on a missing key. These are
  \<open>AList.update\<close> and \<open>AList.delete\<close>; \<^verbatim>\<open>Object.keys\<close> is \<open>map fst\<close> and
  \<^verbatim>\<open>Object.values\<close> is \<open>map snd\<close>. (Resource identifiers are the UUID strings mediasoup
  assigns, so no key of a match's object is an array index, which JavaScript would enumerate
  first. Match identifiers are taken not to be property names that the registries inherit
  from \<^verbatim>\<open>Object.prototype\<close>.)

  A mediasoup object is represented by what the registries need of it: its \<^verbatim>\<open>id\<close> and
  the object it was created on.
\<close>

record transport =
  tid :: string

record producer =
  pid :: string
  ptransport :: string

record consumer =
  cid :: string
  ctransport :: string
  cproducer :: string

type_synonym 'h registry = "(string \<times> (string \<times> 'h) list) list"

record state =
  matchTransports :: "transport registry"
  matchProducers :: "producer registry"
  matchConsumers :: "consumer registry"

definition init :: state where
  "init = \<lparr>matchTransports = [], matchProducers = [], matchConsumers = []\<rparr>"

text \<open>\<^verbatim>\<open>reg[matchId]?.[id]\<close>: undefined (here \<open>None\<close>) when either level is missing.\<close>

definition lookup :: "'h registry \<Rightarrow> string \<Rightarrow> string \<Rightarrow> 'h option" where
  "lookup reg matchId k = (case map_of reg matchId of None \<Rightarrow> None | Some obj \<Rightarrow> map_of obj k)"

text \<open>\<^verbatim>\<open>reg[matchId] || {}\<close>: the entries registered for a match, none when it has no object.\<close>

definition entries :: "'h registry \<Rightarrow> string \<Rightarrow> (string \<times> 'h) list" where
  "entries reg matchId = (case map_of reg matchId of None \<Rightarrow> [] | Some obj \<Rightarrow> obj)"

text \<open>\<^verbatim>\<open>if (!reg[matchId]) reg[matchId] = {}; reg[matchId][k] = h;\<close>\<close>

definition register :: "string \<Rightarrow> string \<Rightarrow> 'h \<Rightarrow> 'h registry \<Rightarrow> 'h registry" where
  "register matchId k h reg = AList.update matchId (AList.update k h (entries reg matchId)) reg"

text \<open>
  \<^verbatim>\<open>delete reg[matchId][k]\<close>. The source only evaluates it where \<^verbatim>\<open>reg[matchId]\<close> exists; the
  object of the match stays, possibly empty.
\<close>

definition unregister :: "string \<Rightarrow> string \<Rightarrow> 'h registry \<Rightarrow> 'h registry" where
  "unregister matchId k reg =
     (case map_of reg matchId of
        None \<Rightarrow> reg
      | Some obj \<Rightarrow> AList.update matchId (AList.delete k obj) reg)"

text \<open>
  A request field is tested with \<^verbatim>\<open>!field\<close>. An identifier is a string and is falsy when it
  is empty (a missing field takes the same branch); a structured field (RTP parameters or
  capabilities) is an object when present, which is always truthy, so it is an option, of
  the JSON text.
\<close>

definition falsy :: "string \<Rightarrow> bool" where
  "falsy s = (s = [])"

text \<open>The responses: the HTTP error replies, named as in the specification's taxonomy.\<close>

datatype error =
    SessionIdMissing          \<comment> \<open>400 "Match ID is required"\<close>
  | MissingFields             \<comment> \<open>400, the other handlers' field checks\<close>
  | TransportNotFound         \<comment> \<open>404 "Transport not found"\<close>
  | NoProducerAvailable       \<comment> \<open>404 "No producer available"\<close>
  | IncompatibleCapabilities  \<comment> \<open>400 "Cannot consume this producer"\<close>
  | EngineError               \<comment> \<open>500, every \<^verbatim>\<open>catch\<close> block\<close>

section \<open>The media engine\<close>

text \<open>
  mediasoup is not part of the repository, so what it answers is an argument of each
  operation. An awaited call either rejects (\<open>None\<close>) or resolves with the identifier of the
  new object. \<^verbatim>\<open>router.canConsume\<close> is a predicate on a producer identifier and the
  capabilities. A \<^verbatim>\<open>close()\<close> either throws or returns: \<open>close_throws\<close> says, for the
  identifier of an object, whether its close throws. While a transport closes, the engine may
  invoke \<^verbatim>\<open>transportclose\<close> callbacks that the server subscribed on producers and
  consumers, and \<open>notifies\<close> lists, for the identifier of a transport, the ones it invokes. A
  callback is the closure the source creates: it has captured the match identifier and the
  object. A close that throws is taken to have invoked none. Closing a producer or a consumer
  invokes none either, because the server subscribes to \<^verbatim>\<open>transportclose\<close> and to no other
  event.

  The router is taken to be initialised, and every operation is modelled as one atomic step:
  the interleaving of two requests at an \<^verbatim>\<open>await\<close> is not represented.
\<close>

datatype event =
    ProducerTransportclose string string  \<comment> \<open>captured \<^verbatim>\<open>matchId\<close>, \<^verbatim>\<open>producer.id\<close>\<close>
  | ConsumerTransportclose string string  \<comment> \<open>captured \<^verbatim>\<open>matchId\<close>, \<^verbatim>\<open>consumer.id\<close>\<close>

record engine =
  close_throws :: "string \<Rightarrow> bool"
  notifies :: "string \<Rightarrow> event list"

text \<open>The bodies of the two callbacks (the one in \<^verbatim>\<open>/api/produce\<close>, the one in \<^verbatim>\<open>/api/consume\<close>).\<close>

fun handler :: "event \<Rightarrow> state \<Rightarrow> state" where
  "handler (ProducerTransportclose matchId k) s =
     (if lookup (matchProducers s) matchId k \<noteq> None
      then s\<lparr>matchProducers := unregister matchId k (matchProducers s)\<rparr> else s)"
| "handler (ConsumerTransportclose matchId k) s =
     (if lookup (matchConsumers s) matchId k \<noteq> None
      then s\<lparr>matchConsumers := unregister matchId k (matchConsumers s)\<rparr> else s)"

text \<open>\<^verbatim>\<open>transport.close()\<close> that returns: the callbacks the engine invokes, in order.\<close>

definition transport_closed :: "engine \<Rightarrow> transport \<Rightarrow> state \<Rightarrow> state" where
  "transport_closed eng t s = fold handler (notifies eng (tid t)) s"

section \<open>The request handlers\<close>

text \<open>\<^verbatim>\<open>POST /api/create-transport\<close>\<close>

definition createTransport :: "string \<Rightarrow> string option \<Rightarrow> state \<Rightarrow> (error + string) \<times> state" where
  "createTransport matchId created s =
     (if falsy matchId then (Inl SessionIdMissing, s)
      else case created of
             None \<Rightarrow> (Inl EngineError, s)
           | Some i \<Rightarrow>
               (Inr i, s\<lparr>matchTransports := register matchId i \<lparr>tid = i\<rparr> (matchTransports s)\<rparr>))"

text \<open>\<^verbatim>\<open>POST /api/connect-transport\<close>; \<open>connected\<close> says whether \<^verbatim>\<open>transport.connect\<close> resolves.\<close>

definition connectTransport :: "string \<Rightarrow> string \<Rightarrow> bool \<Rightarrow> state \<Rightarrow> (error + unit) \<times> state" where
  "connectTransport matchId transportId connected s =
     (if falsy matchId \<or> falsy transportId then (Inl MissingFields, s)
      else case lookup (matchTransports s) matchId transportId of
             None \<Rightarrow> (Inl TransportNotFound, s)
           | Some t \<Rightarrow> if connected then (Inr (), s) else (Inl EngineError, s))"

text \<open>\<^verbatim>\<open>POST /api/produce\<close>\<close>

definition produce ::
  "string \<Rightarrow> string \<Rightarrow> string \<Rightarrow> string option \<Rightarrow> string option \<Rightarrow> state
     \<Rightarrow> (error + string) \<times> state" where
  "produce matchId transportId kind rtpParameters produced s =
     (if falsy matchId \<or> falsy transportId \<or> falsy kind \<or> rtpParameters = None
      then (Inl MissingFields, s)
      else case lookup (matchTransports s) matchId transportId of
             None \<Rightarrow> (Inl TransportNotFound, s)
           | Some t \<Rightarrow>
               (case produced of
                  None \<Rightarrow> (Inl EngineError, s)
                | Some i \<Rightarrow>
                    (Inr i, s\<lparr>matchProducers :=
                       register matchId i \<lparr>pid = i, ptransport = tid t\<rparr> (matchProducers s)\<rparr>)))"

text \<open>
  \<^verbatim>\<open>POST /api/consume\<close>. The producer is \<^verbatim>\<open>producers[producerIds[0]]\<close>, the first entry of the
  match's producer object; the reply carries the consumer's and that producer's identifiers.
\<close>

definition consume ::
  "string \<Rightarrow> string \<Rightarrow> string option \<Rightarrow> (string \<Rightarrow> string \<Rightarrow> bool) \<Rightarrow> string option \<Rightarrow> state
     \<Rightarrow> (error + string \<times> string) \<times> state" where
  "consume matchId transportId rtpCapabilities canConsume consumed s =
     (if falsy matchId \<or> falsy transportId then (Inl MissingFields, s)
      else case rtpCapabilities of
        None \<Rightarrow> (Inl MissingFields, s)
      | Some caps \<Rightarrow>
          (case lookup (matchTransports s) matchId transportId of
             None \<Rightarrow> (Inl TransportNotFound, s)
           | Some t \<Rightarrow>
               (case entries (matchProducers s) matchId of
                  [] \<Rightarrow> (Inl NoProducerAvailable, s)
                | (k, p) # rest \<Rightarrow>
                    if \<not> canConsume (pid p) caps then (Inl IncompatibleCapabilities, s)
                    else case consumed of
                           None \<Rightarrow> (Inl EngineError, s)
                         | Some i \<Rightarrow>
                             (Inr (i, pid p), s\<lparr>matchConsumers :=
                                register matchId i
                                  \<lparr>cid = i, ctransport = tid t, cproducer = pid p\<rparr>
                                  (matchConsumers s)\<rparr>))))"

text \<open>
  \<^verbatim>\<open>GET /api/stream-status/:matchId\<close>. \<^verbatim>\<open>a && b\<close> is \<^verbatim>\<open>a\<close> when \<^verbatim>\<open>a\<close> is falsy, so
  \<^verbatim>\<open>hasProducers\<close> is \<^verbatim>\<open>undefined\<close> when the match has no producer object, and a boolean
  otherwise (an object is truthy, also when empty).
\<close>

datatype jsval = Undefined | Bool bool

definition truthy :: "jsval \<Rightarrow> bool" where
  "truthy v = (v = Bool True)"

record status_reply =
  isActive :: jsval
  producerCount :: nat

definition hasProducers :: "state \<Rightarrow> string \<Rightarrow> jsval" where
  "hasProducers s matchId =
     (case map_of (matchProducers s) matchId of
        None \<Rightarrow> Undefined
      | Some obj \<Rightarrow> Bool (length (map fst obj) > 0))"

definition status :: "string \<Rightarrow> state \<Rightarrow> status_reply \<times> state" where
  "status matchId s =
     (\<lparr>isActive = hasProducers s matchId,
       producerCount =
         (if truthy (hasProducers s matchId)
          then length (map fst (entries (matchProducers s) matchId)) else 0)\<rparr>, s)"


text \<open>\<^verbatim>\<open>POST /api/close-producer\<close>\<close>

definition closeProducer :: "string \<Rightarrow> string \<Rightarrow> engine \<Rightarrow> state \<Rightarrow> (error + unit) \<times> state" where
  "closeProducer matchId producerId eng s =
     (if falsy matchId \<or> falsy producerId then (Inl MissingFields, s)
      else case lookup (matchProducers s) matchId producerId of
             None \<Rightarrow> (Inr (), s)
           | Some p \<Rightarrow>
               if close_throws eng (pid p) then (Inl EngineError, s)
               else (Inr (), s\<lparr>matchProducers := unregister matchId producerId (matchProducers s)\<rparr>))"

text \<open>\<^verbatim>\<open>POST /api/close-transport\<close>\<close>

definition closeTransport :: "string \<Rightarrow> string \<Rightarrow> engine \<Rightarrow> state \<Rightarrow> (error + unit) \<times> state" where
  "closeTransport matchId transportId eng s =
     (if falsy matchId \<or> falsy transportId then (Inl MissingFields, s)
      else case lookup (matchTransports s) matchId transportId of
             None \<Rightarrow> (Inr (), s)
           | Some t \<Rightarrow>
               if close_throws eng (tid t) then (Inl EngineError, s)
               else (Inr (),
                     (transport_closed eng t s)\<lparr>matchTransports :=
                        unregister matchId transportId
                          (matchTransports (transport_closed eng t s))\<rparr>))"

text \<open>
  \<^verbatim>\<open>POST /api/cleanup-match\<close>. Each \<^verbatim>\<open>forEach\<close> stops at the first \<^verbatim>\<open>close()\<close> that throws, and
  the \<^verbatim>\<open>catch\<close> block answers 500 with the registries as they are at that moment.
  \<open>close_transports\<close> is the third loop: \<open>False\<close> when a close threw.
\<close>

fun close_transports :: "engine \<Rightarrow> transport list \<Rightarrow> state \<Rightarrow> bool \<times> state" where
  "close_transports eng [] s = (True, s)"
| "close_transports eng (t # ts) s =
     (if close_throws eng (tid t) then (False, s)
      else close_transports eng ts (transport_closed eng t s))"

definition cleanup_transports :: "string \<Rightarrow> engine \<Rightarrow> state \<Rightarrow> (error + unit) \<times> state" where
  "cleanup_transports matchId eng s =
     (case map_of (matchTransports s) matchId of
        None \<Rightarrow> (Inr (), s)
      | Some obj \<Rightarrow>
          (case close_transports eng (map snd obj) s of
             (False, s') \<Rightarrow> (Inl EngineError, s')
           | (True, s') \<Rightarrow>
               (Inr (), s'\<lparr>matchTransports := AList.delete matchId (matchTransports s')\<rparr>)))"

definition cleanup_consumers :: "string \<Rightarrow> engine \<Rightarrow> state \<Rightarrow> (error + unit) \<times> state" where
  "cleanup_consumers matchId eng s =
     (case map_of (matchConsumers s) matchId of
        None \<Rightarrow> cleanup_transports matchId eng s
      | Some obj \<Rightarrow>
          if list_ex (\<lambda>c. close_throws eng (cid c)) (map snd obj) then (Inl EngineError, s)
          else cleanup_transports matchId eng
                 (s\<lparr>matchConsumers := AList.delete matchId (matchConsumers s)\<rparr>))"

definition cleanupSession :: "string \<Rightarrow> engine \<Rightarrow> state \<Rightarrow> (error + unit) \<times> state" where
  "cleanupSession matchId eng s =
     (if falsy matchId then (Inl MissingFields, s)
      else case map_of (matchProducers s) matchId of
             None \<Rightarrow> cleanup_consumers matchId eng s
           | Some obj \<Rightarrow>
               if list_ex (\<lambda>p. close_throws eng (pid p)) (map snd obj) then (Inl EngineError, s)
               else cleanup_consumers matchId eng
                      (s\<lparr>matchProducers := AList.delete matchId (matchProducers s)\<rparr>))"

section \<open>Engine behaviours and reachable states\<close>






text \<open>Two engines: one whose closes all return and notify nobody, one whose closes all throw.\<close>

definition quiet :: engine where
  "quiet = \<lparr>close_throws = (\<lambda>i. False), notifies = (\<lambda>i. [])\<rparr>"

definition failing :: engine where
  "failing = \<lparr>close_throws = (\<lambda>i. True), notifies = (\<lambda>i. [])\<rparr>"



text \<open>
  A session: match m1 gets the transports T1 and T2, the producer P1 on T1 and the consumer
  C1 on T2.
\<close>

definition accepts :: "string \<Rightarrow> string \<Rightarrow> bool" where
  "accepts producerId caps = True"

definition with_T1 :: state where
  "with_T1 = snd (createTransport ''m1'' (Some ''T1'') init)"

definition with_T2 :: state where
  "with_T2 = snd (createTransport ''m1'' (Some ''T2'') with_T1)"

definition with_P1 :: state where
  "with_P1 = snd (produce ''m1'' ''T1'' ''video'' (Some ''{}'') (Some ''P1'') with_T2)"

definition with_C1 :: state where
  "with_C1 = snd (consume ''m1'' ''T2'' (Some ''{}'') accepts (Some ''C1'') with_P1)"



section \<open>Registry lemmas\<close>

lemmas ops = createTransport_def connectTransport_def produce_def consume_def status_def
  closeProducer_def closeTransport_def cleanupSession_def cleanup_consumers_def
  cleanup_transports_def transport_closed_def hasProducers_def truthy_def

lemmas regs = lookup_def entries_def register_def unregister_def falsy_def

lemmas exs = with_T1_def with_T2_def with_P1_def with_C1_def init_def quiet_def failing_def
  accepts_def

lemma lookup_register:
  "lookup (register m k h reg) m' k' = (if m' = m \<and> k' = k then Some h else lookup reg m' k')"
  by (simp add: lookup_def register_def entries_def update_conv' split: option.splits)







lemma handler_transports [simp]: "matchTransports (handler e s) = matchTransports s"
  by (cases e) simp_all

lemma fold_handler_transports [simp]: "matchTransports (fold handler es s) = matchTransports s"
  by (induction es arbitrary: s) simp_all























section \<open>What a cleanup leaves\<close>


lemma map_of_delete_same [simp]: "map_of (AList.delete m reg) m = None"
  by (simp add: delete_conv')













section \<open>Closing a transport\<close>














section \<open>The claims\<close>



















text \<open>
  C7. \<open>createTransport\<close> answers \<open>SessionIdMissing\<close> for the empty match identifier and
  \<open>EngineError\<close> when the engine's transport creation fails, and in both cases all three
  registries are exactly as before. The state changes only when the engine call has
  succeeded, and then the new transport is registered under its identifier.
\<close>

theorem createTransport_failures_register_nothing:
  "(falsy m \<longrightarrow> createTransport m created s = (Inl SessionIdMissing, s))
 \<and> (\<not> falsy m \<longrightarrow> createTransport m None s = (Inl EngineError, s))
 \<and> (snd (createTransport m created s) \<noteq> s \<longrightarrow>
       \<not> falsy m \<and> (\<exists>i. created = Some i \<and> fst (createTransport m created s) = Inr i))
 \<and> (\<not> falsy m \<longrightarrow>
       createTransport m (Some i) s
         = (Inr i, s\<lparr>matchTransports := register m i \<lparr>tid = i\<rparr> (matchTransports s)\<rparr>))"
  by (auto simp add: createTransport_def split: option.splits)

text \<open>On the state with transport T1: the two failures, and a successful creation of T2.\<close>

theorem createTransport_failures_register_nothing_witness:
  "falsy '''' \<and> \<not> falsy ''m1''
   \<and> createTransport '''' (Some ''T2'') with_T1 = (Inl SessionIdMissing, with_T1)
   \<and> createTransport ''m1'' None with_T1 = (Inl EngineError, with_T1)
   \<and> snd (createTransport ''m1'' (Some ''T2'') with_T1) \<noteq> with_T1
   \<and> fst (createTransport ''m1'' (Some ''T2'') with_T1) = Inr ''T2''
   \<and> lookup (matchTransports (snd (createTransport ''m1'' (Some ''T2'') with_T1))) ''m1'' ''T2''
       = Some \<lparr>tid = ''T2''\<rparr>"
proof -
  have f: "falsy ''''" "\<not> falsy ''m1''"
    by (simp_all add: falsy_def)
  have n: "snd (createTransport ''m1'' (Some ''T2'') with_T1) \<noteq> with_T1"
    by (simp add: exs ops regs)
  from createTransport_failures_register_nothing[of "''''" "Some ''T2''" with_T1]
    createTransport_failures_register_nothing[of "''m1''" "Some ''T2''" with_T1 "''T2''"]
    f n
  show ?thesis by (simp add: lookup_register)
qed







end
